theory Spec2Isabelle
  imports Main "HOL-Library.Word"
begin

section \<open>Data model of weed/mount/weedfs_file_copy_range.go\<close>

text \<open>
  Go's fixed-width integers are words: \<open>uint64\<close> and \<open>int64\<close> are both \<open>64 word\<close>
  (a conversion between them keeps the bits); an \<open>int64\<close> is read through \<open>sint\<close>,
  a \<open>uint64\<close> through \<open>unat\<close>. Go's \<open>int\<close> is 64 bits wide on the platforms the
  mount runs on. Addition and subtraction wrap.
\<close>

type_synonym byte = "8 word"
type_synonym uint64 = "64 word"
type_synonym int64 = "64 word"
type_synonym uint32 = "32 word"

text \<open>Pointers to handles and entries are addresses into a store.\<close>

type_synonym ref = nat

text \<open>The \<open>fuse.Status\<close> values the function returns.\<close>

datatype Status = OK | EINVAL | EBADF | ENOENT | EISDIR | EIO

text \<open>A non-nil Go \<open>error\<close>: \<open>io.EOF\<close>, or any other error value.\<close>

datatype error = EOF | ReadFailure

text \<open>Run-time panics of the Go code that the function can raise itself.\<close>

datatype panic = NilDereference | MakeSliceLen | SliceBounds

text \<open>\<open>fuse.CopyFileRangeIn\<close>, the fields the function reads.\<close>

record CopyFileRangeIn =
  FhIn :: uint64
  FhOut :: uint64
  OffIn :: uint64
  OffOut :: uint64
  Len :: uint64
  Flags :: uint64

record FuseAttributes =
  FileSize :: uint64

text \<open>
  The fields of the entry that the function reads or writes. \<open>Content = None\<close> is the
  nil slice; \<open>Attributes\<close> is taken to be present.
\<close>

record Entry =
  IsDirectory :: bool
  Content :: "byte list option"
  Attributes :: FuseAttributes

text \<open>
  A file handle. \<open>entry\<close> is a pointer that may be nil. \<open>dirtyPages\<close> stands for the
  page writer together with its \<open>writerPattern\<close>; its type is a parameter, because the
  page writer is declared outside this file.
\<close>

record 'dp FileHandle =
  fh :: uint64
  inode :: uint64
  entry :: "ref option"
  dirtyPages :: 'dp
  dirtyMetadata :: bool
  contentType :: string

text \<open>
  The part of \<open>WFS\<close> the function touches: the heap of handle and entry objects, and
  the registry behind \<open>GetHandle\<close>, which is not defined in this file. Modelled from the
  spec: \<open>HandleRegistry.Get(id) -> FileHandle or absent\<close> of section 6, as a map from
  handle ids to handle objects.
\<close>

record 'dp WFS =
  fhMap :: "uint64 \<Rightarrow> ref option"
  handles :: "ref \<Rightarrow> 'dp FileHandle"
  entries :: "ref \<Rightarrow> Entry"

text \<open>
  The methods the function calls on its collaborators, none of which is defined in this
  file. They are parameters of the model:
  \<^item> \<open>readFromChunks fh data offset\<close> returns the buffer as it left it, the number of
    bytes read and the error;
  \<^item> \<open>readFromDirtyPages fh data offset\<close> returns the buffer as it left it and
    \<open>maxStop\<close>;
  \<^item> \<open>MonitorWriteAt offset size\<close> and \<open>IsSequentialMode\<close> act on the writer pattern
    inside \<open>dirtyPages\<close>, \<open>AddPage offset data isSequential\<close> on \<open>dirtyPages\<close>;
  \<^item> \<open>DetectContentType\<close> is \<open>http.DetectContentType\<close>.
\<close>

record 'dp collab =
  readFromChunks :: "'dp FileHandle \<Rightarrow> byte list \<Rightarrow> int64 \<Rightarrow> byte list \<times> int64 \<times> error option"
  readFromDirtyPages :: "'dp FileHandle \<Rightarrow> byte list \<Rightarrow> int64 \<Rightarrow> byte list \<times> int64"
  MonitorWriteAt :: "int64 \<Rightarrow> int64 \<Rightarrow> 'dp \<Rightarrow> 'dp"
  IsSequentialMode :: "'dp \<Rightarrow> bool"
  AddPage :: "int64 \<Rightarrow> byte list \<Rightarrow> bool \<Rightarrow> 'dp \<Rightarrow> 'dp"
  DetectContentType :: "byte list \<Rightarrow> string"

text \<open>
  The calls with an effect outside the handle's data, in the order the function makes
  them: registry lookups, the two mutexes of a handle, and the range lock for reading.
\<close>

datatype event =
    GetHandle uint64
  | Lock ref
  | Unlock ref
  | EntryLock ref
  | EntryUnlock ref
  | LockForRead ref int64 int64
  | UnlockForRead ref int64 int64

text \<open>The function either returns \<open>(written, code)\<close> or panics.\<close>

datatype result = Return uint32 Status | Panic panic

section \<open>The function\<close>

text \<open>Go's built-in \<open>max\<close> and \<open>min\<close> at type \<open>int64\<close>.\<close>

definition max64 :: "int64 \<Rightarrow> int64 \<Rightarrow> int64" where
  "max64 a b = (if sint a < sint b then b else a)"

definition min64 :: "int64 \<Rightarrow> int64 \<Rightarrow> int64" where
  "min64 a b = (if sint b < sint a then b else a)"

text \<open>
  Lines 88 to 96, with \<open>in.OffIn\<close> and \<open>in.Len\<close> as arguments: the buffer of
  \<open>int(in.Len)\<close> zero bytes, the chunk read, the overlay of
  the dirty pages when the chunk read ended with nil or \<open>io.EOF\<close>, and \<open>io.EOF\<close> turned
  into nil.
\<close>

definition readSource ::
  "'dp collab \<Rightarrow> 'dp FileHandle \<Rightarrow> uint64 \<Rightarrow> uint64 \<Rightarrow> byte list \<times> int64 \<times> error option" where
  "readSource c fhIn offIn len =
     (let data = replicate (nat (sint len)) 0;
          (data, totalRead, err) = readFromChunks c fhIn data offIn;
          (data, totalRead) =
            (if err = None \<or> err = Some EOF
             then (let (data, maxStop) = readFromDirtyPages c fhIn data offIn
                   in (data, max64 (maxStop - offIn) totalRead))
             else (data, totalRead));
          err = (if err = Some EOF then None else err)
      in (data, totalRead, err))"

text \<open>
  Lines 106 to 119. \<open>out\<close> is the destination handle and \<open>eo\<close> its entry. The slice
  expression \<open>data[:k]\<close> panics unless \<open>0 \<le> k \<le> cap(data)\<close>; the writes before it have
  happened by then.
\<close>

definition writeTarget ::
  "'dp collab \<Rightarrow> 'dp WFS \<Rightarrow> ref \<Rightarrow> ref \<Rightarrow> CopyFileRangeIn \<Rightarrow> byte list \<Rightarrow> int64
     \<Rightarrow> result \<times> 'dp WFS" where
  "writeTarget c s out eo inp data totalRead =
     (let fhOut = handles s out;
          dp = MonitorWriteAt c (OffOut inp) (Len inp) (dirtyPages fhOut);
          e = (entries s eo)\<lparr>Content := None\<rparr>;
          dp = AddPage c (OffOut inp) data (IsSequentialMode c dp) dp;
          e = e\<lparr>Attributes := (Attributes e)
                 \<lparr>FileSize := max64 (OffOut inp + totalRead) (FileSize (Attributes e))\<rparr>\<rparr>;
          fhOut = fhOut\<lparr>dirtyPages := dp, dirtyMetadata := True\<rparr>;
          s = s\<lparr>handles := (handles s)(out := fhOut), entries := (entries s)(eo := e)\<rparr>;
          written = (ucast totalRead :: uint32)
      in if 0 < written \<and> OffOut inp \<le> 512
         then (let k = min64 totalRead 512 - 1
               in if sint k < 0 \<or> int (length data) < sint k
                  then (Panic SliceBounds, s)
                  else (Return written OK,
                        s\<lparr>handles := (handles s)
                             (out := fhOut\<lparr>contentType :=
                                DetectContentType c (take (nat (sint k)) data)\<rparr>)\<rparr>))
         else (Return written OK, s))"

text \<open>
  Lines 69 to 72 without the comparison of the inodes: the test on the two ranges, in
  \<open>uint64\<close> arithmetic.
\<close>

definition rangesOverlap :: "uint64 \<Rightarrow> uint64 \<Rightarrow> uint64 \<Rightarrow> bool" where
  "rangesOverlap offIn offOut len =
     (let offInEnd = offIn + len - 1;
          offOutEnd = offOut + len - 1
      in offIn \<le> offOutEnd \<and> offInEnd \<ge> offOut)"

text \<open>
  Lines 63 to 119, run with the locks held. \<open>fhIn.entry\<close> is dereferenced first;
  \<open>make\<close> panics on a negative length (memory is not bounded in the model, so every
  other length is allocated); the deferred \<open>unlockForRead\<close> runs on every way out of
  the function after line 86, a panic included.
\<close>

definition copyLocked ::
  "'dp collab \<Rightarrow> 'dp WFS \<Rightarrow> ref \<Rightarrow> ref \<Rightarrow> ref \<Rightarrow> CopyFileRangeIn
     \<Rightarrow> result \<times> 'dp WFS \<times> event list" where
  "copyLocked c s out inn eo inp =
     (case entry (handles s inn) of
        None \<Rightarrow> (Panic NilDereference, s, [])
      | Some ei \<Rightarrow>
          if IsDirectory (entries s ei) \<or> IsDirectory (entries s eo)
          then (Return 0 EISDIR, s, [])
          else if inode (handles s inn) = inode (handles s out)
                  \<and> rangesOverlap (OffIn inp) (OffOut inp) (Len inp)
          then (Return 0 EINVAL, s, [])
          else
            (let ev = [LockForRead inn (OffIn inp) (Len inp),
                       UnlockForRead inn (OffIn inp) (Len inp)]
             in if sint (Len inp) < 0 then (Panic MakeSliceLen, s, ev)
                else
                  (let (data, totalRead, err) =
                         readSource c (handles s inn) (OffIn inp) (Len inp)
                   in if err \<noteq> None then (Return 0 EIO, s, ev)
                      else if totalRead = 0 then (Return 0 OK, s, ev)
                      else (let (r, s') = writeTarget c s out eo inp data totalRead
                            in (r, s', ev)))))"

text \<open>
  Lines 30 to 61. The deferred unlocks run in the reverse of the order in which they
  were deferred, after the body, whichever way the body ends. The \<open>cancel\<close> channel is
  not read, and the \<open>glog\<close> calls only format a message.
\<close>

definition CopyFileRange ::
  "'dp collab \<Rightarrow> 'dp WFS \<Rightarrow> CopyFileRangeIn \<Rightarrow> result \<times> 'dp WFS \<times> event list" where
  "CopyFileRange c s inp =
     (if Flags inp \<noteq> 0 then (Return 0 EINVAL, s, [])
      else
        (case fhMap s (FhOut inp) of
           None \<Rightarrow> (Return 0 EBADF, s, [GetHandle (FhOut inp)])
         | Some out \<Rightarrow>
             (case fhMap s (FhIn inp) of
                None \<Rightarrow> (Return 0 EBADF, s, [GetHandle (FhOut inp), GetHandle (FhIn inp)])
              | Some inn \<Rightarrow>
                  (let (r, s', ev) =
                     (case entry (handles s out) of
                        None \<Rightarrow> (Return 0 ENOENT, s, [])
                      | Some eo \<Rightarrow>
                          if fh (handles s inn) \<noteq> fh (handles s out)
                          then (let (r, s', ev) = copyLocked c s out inn eo inp
                                in (r, s', [Lock inn, EntryLock inn] @ ev
                                           @ [EntryUnlock inn, Unlock inn]))
                          else copyLocked c s out inn eo inp)
                   in (r, s', [GetHandle (FhOut inp), GetHandle (FhIn inp),
                               Lock out, EntryLock out] @ ev
                              @ [EntryUnlock out, Unlock out])))))"

section \<open>Collaborators modelled from the specification\<close>

text \<open>
  Modelled from the spec: the chunk store of section 6,
  \<open>ChunkStore.ReadAt(objectIdentity, buffer, offset) -> (bytesRead, error|end-of-data)\<close>,
  which holds committed data only and is not part of this file. An object's committed
  bytes are a byte list; an object whose read fails with a transport or storage error is
  \<open>Unavailable\<close>. A read that fills less than the buffer reports end-of-data.
\<close>

datatype chunk_object = Committed "byte list" | Unavailable

definition ChunkStore_ReadAt ::
  "(uint64 \<Rightarrow> chunk_object) \<Rightarrow> uint64 \<Rightarrow> byte list \<Rightarrow> int64
     \<Rightarrow> byte list \<times> int64 \<times> error option" where
  "ChunkStore_ReadAt store ino buf off =
     (case store ino of
        Unavailable \<Rightarrow> (buf, 0, Some ReadFailure)
      | Committed bs \<Rightarrow>
          if sint off < 0 then (buf, 0, Some ReadFailure)
          else
            (let avail = drop (nat (sint off)) bs;
                 n = min (length buf) (length avail)
             in (take n avail @ drop n buf, of_nat n,
                 if n < length buf then Some EOF else None)))"

text \<open>
  Modelled from the spec: the WriterPatternMonitor of sections 3 and 4.3, ``small rolling
  state (last write offset, last write length, streak counter)'': a write that starts
  where the previous one stopped lengthens the streak, any other write resets it, and
  the mode is sequential while there is a streak.
\<close>

record WriterPattern =
  lastOffset :: int
  lastLength :: int
  streak :: nat

definition monitorWriteAt :: "int \<Rightarrow> int \<Rightarrow> WriterPattern \<Rightarrow> WriterPattern" where
  "monitorWriteAt off n wp =
     \<lparr>lastOffset = off, lastLength = n,
      streak = (if off = lastOffset wp + lastLength wp then Suc (streak wp) else 0)\<rparr>"

definition isSequentialMode :: "WriterPattern \<Rightarrow> bool" where
  "isSequentialMode wp = (0 < streak wp)"

text \<open>
  Modelled from the spec: the DirtyPageBuffer of sections 3 and 4.2, byte-range records
  \<open>{offset, data}\<close> where the most recent write wins on overlapping bytes. The pages are
  kept newest first. The sequential hint ``never affects correctness of subsequent
  reads'', so \<open>addPage\<close> does not look at it.
\<close>

type_synonym page = "int \<times> byte list"

record DirtyPageBuffer =
  pages :: "page list"
  writerPattern :: WriterPattern

definition addPage :: "int \<Rightarrow> byte list \<Rightarrow> bool \<Rightarrow> DirtyPageBuffer \<Rightarrow> DirtyPageBuffer" where
  "addPage off bs isSequential dp = dp\<lparr>pages := (off, bs) # pages dp\<rparr>"

text \<open>
  Modelled from the spec: the byte-range records of section 3. Whether a page holds the
  byte at absolute offset \<open>a\<close>, and the byte it holds.
\<close>

definition covers :: "int \<Rightarrow> page \<Rightarrow> bool" where
  "covers a p = (fst p \<le> a \<and> a < fst p + int (length (snd p)))"

definition pageByte :: "int \<Rightarrow> page \<Rightarrow> byte" where
  "pageByte a p = snd p ! nat (a - fst p)"

text \<open>
  Modelled from the spec: the overlay read of section 4.1. One page is laid over the
  buffer that stands for the offsets from \<open>start\<close> on; all pages are laid over it from
  the oldest to the newest. The value returned with the buffer is the highest offset that
  a page reached inside the buffer's range, and \<open>start\<close> when no page reached into it.
\<close>

definition overlayPage :: "int \<Rightarrow> page \<Rightarrow> byte list \<Rightarrow> byte list" where
  "overlayPage start p buf =
     map (\<lambda>i. if covers (start + int i) p then pageByte (start + int i) p else buf ! i)
       [0..<length buf]"

definition pageStop :: "int \<Rightarrow> nat \<Rightarrow> page \<Rightarrow> int" where
  "pageStop start n p =
     (if max start (fst p) < min (start + int n) (fst p + int (length (snd p)))
      then min (start + int n) (fst p + int (length (snd p)))
      else start)"

definition readDirtyDataAt :: "page list \<Rightarrow> byte list \<Rightarrow> int \<Rightarrow> byte list \<times> int" where
  "readDirtyDataAt ps buf start =
     (foldr (overlayPage start) ps buf,
      foldr (\<lambda>p m. max m (pageStop start (length buf) p)) ps start)"

text \<open>
  Modelled from the spec: the collaborators of the function, assembled from the models
  above for a chunk store \<open>store\<close> (keyed by the object identity, the inode) and a MIME
  sniffer \<open>sniff\<close>. \<open>readFromChunks\<close> delegates to the chunk store (section 4.1),
  \<open>readFromDirtyPages\<close> is the overlay read, and the offsets are read as \<open>int64\<close>.
\<close>

definition specCollab ::
  "(uint64 \<Rightarrow> chunk_object) \<Rightarrow> (byte list \<Rightarrow> string) \<Rightarrow> DirtyPageBuffer collab" where
  "specCollab store sniff =
     \<lparr>readFromChunks = (\<lambda>h buf off. ChunkStore_ReadAt store (inode h) buf off),
      readFromDirtyPages = (\<lambda>h buf off.
         (let (buf', m) = readDirtyDataAt (pages (dirtyPages h)) buf (sint off)
          in (buf', word_of_int m))),
      MonitorWriteAt = (\<lambda>off n dp.
         dp\<lparr>writerPattern := monitorWriteAt (sint off) (sint n) (writerPattern dp)\<rparr>),
      IsSequentialMode = (\<lambda>dp. isSequentialMode (writerPattern dp)),
      AddPage = (\<lambda>off bs isSequential dp. addPage (sint off) bs isSequential dp),
      DetectContentType = sniff\<rparr>"


section \<open>Example states\<close>

text \<open>Bytes of ASCII text.\<close>

definition bytes :: "string \<Rightarrow> byte list" where
  "bytes cs = map (\<lambda>ch. word_of_nat (of_char ch)) cs"

definition emptyPages :: DirtyPageBuffer where
  "emptyPages = \<lparr>pages = [], writerPattern = \<lparr>lastOffset = 0, lastLength = 0, streak = 0\<rparr>\<rparr>"

definition mkHandle :: "uint64 \<Rightarrow> uint64 \<Rightarrow> ref option \<Rightarrow> page list \<Rightarrow> DirtyPageBuffer FileHandle" where
  "mkHandle i ino e ps =
     \<lparr>fh = i, inode = ino, entry = e, dirtyPages = emptyPages\<lparr>pages := ps\<rparr>,
      dirtyMetadata = False, contentType = []\<rparr>"

definition mkEntry :: "bool \<Rightarrow> uint64 \<Rightarrow> Entry" where
  "mkEntry d n = \<lparr>IsDirectory = d, Content = None, Attributes = \<lparr>FileSize = n\<rparr>\<rparr>"

definition mkIn :: "uint64 \<Rightarrow> uint64 \<Rightarrow> uint64 \<Rightarrow> uint64 \<Rightarrow> uint64 \<Rightarrow> uint64 \<Rightarrow> CopyFileRangeIn" where
  "mkIn i off_i o' off_o n f =
     \<lparr>FhIn = i, FhOut = o', OffIn = off_i, OffOut = off_o, Len = n, Flags = f\<rparr>"

text \<open>
  Handle 1 (object 1 at address 1) is the source, handle 2 (object 2 at address 2) the
  destination; every other address holds a handle with no entry. Entry \<open>n\<close> belongs to
  handle \<open>n\<close>.
\<close>

definition mkWFS ::
  "DirtyPageBuffer FileHandle \<Rightarrow> DirtyPageBuffer FileHandle \<Rightarrow> Entry \<Rightarrow> Entry \<Rightarrow> DirtyPageBuffer WFS" where
  "mkWFS h1 h2 e1 e2 =
     \<lparr>fhMap = (\<lambda>i. if i = 1 then Some 1 else if i = 2 then Some 2 else None),
      handles = (\<lambda>r. if r = 1 then h1 else if r = 2 then h2 else mkHandle 0 0 None []),
      entries = (\<lambda>r. if r = 1 then e1 else e2)\<rparr>"

definition mkStore :: "byte list \<Rightarrow> byte list \<Rightarrow> uint64 \<Rightarrow> chunk_object" where
  "mkStore b1 b2 = (\<lambda>ino. if ino = 1 then Committed b1 else if ino = 2 then Committed b2 else Unavailable)"

text \<open>
  The scenario of the specification: the source has the committed bytes \<open>0123456789\<close> and
  a dirty \<open>XY\<close> at offsets 3 and 4; the destination is fresh.
\<close>

definition overlayStore :: "uint64 \<Rightarrow> chunk_object" where
  "overlayStore = mkStore (bytes ''0123456789'') []"

definition overlayWFS :: "DirtyPageBuffer WFS" where
  "overlayWFS =
     mkWFS (mkHandle 1 1 (Some 1) [(3, bytes ''XY'')]) (mkHandle 2 2 (Some 2) [])
       (mkEntry False 10) (mkEntry False 0)"

text \<open>A sniffer that knows the PDF signature only, for the examples.\<close>

definition sniffPDF :: "byte list \<Rightarrow> string" where
  "sniffPDF bs =
     (if take 5 bs = bytes ''%PDF-'' then ''application/pdf''
      else ''text/plain; charset=utf-8'')"

definition overlayCollab :: "DirtyPageBuffer collab" where
  "overlayCollab = specCollab overlayStore sniffPDF"

text \<open>The same source, and a destination whose entry records a size of \<open>2 ^ 63\<close>.\<close>

definition hugeWFS :: "DirtyPageBuffer WFS" where
  "hugeWFS =
     mkWFS (mkHandle 1 1 (Some 1) [(3, bytes ''XY'')]) (mkHandle 2 2 (Some 2) [])
       (mkEntry False 10) (mkEntry False 9223372036854775808)"


text \<open>A source with the five committed bytes \<open>%PDF-\<close> and a fresh destination.\<close>

definition pdfStore :: "uint64 \<Rightarrow> chunk_object" where
  "pdfStore = mkStore (bytes ''%PDF-'') []"

definition pdfWFS :: "DirtyPageBuffer WFS" where
  "pdfWFS =
     mkWFS (mkHandle 1 1 (Some 1) []) (mkHandle 2 2 (Some 2) [])
       (mkEntry False 5) (mkEntry False 0)"

text \<open>
  A source with the three committed bytes \<open>abc\<close> and a destination with the ten
  committed bytes \<open>ZZZZZZZZZZ\<close>.
\<close>

definition shortStore :: "uint64 \<Rightarrow> chunk_object" where
  "shortStore = mkStore (bytes ''abc'') (bytes ''ZZZZZZZZZZ'')"

definition shortWFS :: "DirtyPageBuffer WFS" where
  "shortWFS =
     mkWFS (mkHandle 1 1 (Some 1) []) (mkHandle 2 2 (Some 2) [])
       (mkEntry False 3) (mkEntry False 10)"

text \<open>A source whose chunks cannot be read.\<close>

definition brokenStore :: "uint64 \<Rightarrow> chunk_object" where
  "brokenStore = (\<lambda>ino. if ino = 2 then Committed [] else Unavailable)"

text \<open>An empty source.\<close>

definition emptyStore :: "uint64 \<Rightarrow> chunk_object" where
  "emptyStore = mkStore [] []"

definition emptyWFS :: "DirtyPageBuffer WFS" where
  "emptyWFS =
     mkWFS (mkHandle 1 1 (Some 1) []) (mkHandle 2 2 (Some 2) [])
       (mkEntry False 0) (mkEntry False 0)"

text \<open>A source handle, and a destination handle, whose entry is nil.\<close>

definition noSourceEntryWFS :: "DirtyPageBuffer WFS" where
  "noSourceEntryWFS =
     mkWFS (mkHandle 1 1 None []) (mkHandle 2 2 (Some 2) [])
       (mkEntry False 0) (mkEntry False 0)"

definition noTargetEntryWFS :: "DirtyPageBuffer WFS" where
  "noTargetEntryWFS =
     mkWFS (mkHandle 1 1 (Some 1) []) (mkHandle 2 2 None [])
       (mkEntry False 0) (mkEntry False 0)"

section \<open>Vocabulary of the statements\<close>

abbreviation resultOf :: "result \<times> 's \<times> event list \<Rightarrow> result" where
  "resultOf x \<equiv> fst x"

abbreviation stateOf :: "result \<times> 's \<times> event list \<Rightarrow> 's" where
  "stateOf x \<equiv> fst (snd x)"


text \<open>
  A request passes the validation of the flags, the handles, the entries and the
  directory flags: the function gets as far as line 68 with \<open>out\<close> and \<open>inn\<close> the
  handles and \<open>eo\<close> and \<open>ei\<close> their entries.
\<close>

definition validated :: "'dp WFS \<Rightarrow> CopyFileRangeIn \<Rightarrow> ref \<Rightarrow> ref \<Rightarrow> ref \<Rightarrow> ref \<Rightarrow> bool" where
  "validated s inp out inn eo ei =
     (Flags inp = 0 \<and> fhMap s (FhOut inp) = Some out \<and> fhMap s (FhIn inp) = Some inn
      \<and> entry (handles s out) = Some eo \<and> entry (handles s inn) = Some ei
      \<and> \<not> IsDirectory (entries s ei) \<and> \<not> IsDirectory (entries s eo))"

text \<open>The function gets as far as the chunk read of line 89.\<close>

definition reachesRead :: "'dp WFS \<Rightarrow> CopyFileRangeIn \<Rightarrow> ref \<Rightarrow> ref \<Rightarrow> ref \<Rightarrow> ref \<Rightarrow> bool" where
  "reachesRead s inp out inn eo ei =
     (validated s inp out inn eo ei
      \<and> \<not> (inode (handles s inn) = inode (handles s out)
            \<and> rangesOverlap (OffIn inp) (OffOut inp) (Len inp))
      \<and> 0 \<le> sint (Len inp))"

text \<open>
  The overlap test in the words of the specification: the closed intervals
  \<open>[a, a + n - 1]\<close> and \<open>[b, b + n - 1]\<close> of exact integers have a common point.
\<close>

definition closedIntervalsIntersect :: "int \<Rightarrow> int \<Rightarrow> int \<Rightarrow> bool" where
  "closedIntervalsIntersect a b n = (max a b \<le> min (a + n - 1) (b + n - 1))"



text \<open>
  The mutexes an invocation acquires, in order: the destination's, then the source's
  when the destination has an entry and the \<open>fh\<close> fields of the two handles differ.
\<close>

definition mutexOrder :: "'dp WFS \<Rightarrow> CopyFileRangeIn \<Rightarrow> event list" where
  "mutexOrder s inp =
     (if Flags inp \<noteq> 0 then []
      else
        (case fhMap s (FhOut inp) of
           None \<Rightarrow> []
         | Some out \<Rightarrow>
             (case fhMap s (FhIn inp) of
                None \<Rightarrow> []
              | Some inn \<Rightarrow>
                  [Lock out, EntryLock out] @
                  (if entry (handles s out) \<noteq> None \<and> fh (handles s inn) \<noteq> fh (handles s out)
                   then [Lock inn, EntryLock inn] else []))))"

section \<open>The path to the source read\<close>

lemma copyLocked_read:
  assumes "reachesRead s inp out inn eo ei"
  shows "fst (copyLocked c s out inn eo inp) =
           (case readSource c (handles s inn) (OffIn inp) (Len inp) of
              (data, totalRead, err) \<Rightarrow>
                if err \<noteq> None then Return 0 EIO
                else if totalRead = 0 then Return 0 OK
                else fst (writeTarget c s out eo inp data totalRead))"
    and "fst (snd (copyLocked c s out inn eo inp)) =
           (case readSource c (handles s inn) (OffIn inp) (Len inp) of
              (data, totalRead, err) \<Rightarrow>
                if err \<noteq> None \<or> totalRead = 0 then s
                else snd (writeTarget c s out eo inp data totalRead))"
  using assms
  by (auto simp: reachesRead_def validated_def copyLocked_def Let_def split: prod.splits)

lemma CopyFileRange_locked:
  assumes "Flags inp = 0" "fhMap s (FhOut inp) = Some out" "fhMap s (FhIn inp) = Some inn"
    "entry (handles s out) = Some eo"
  shows "resultOf (CopyFileRange c s inp) = fst (copyLocked c s out inn eo inp)"
    and "stateOf (CopyFileRange c s inp) = fst (snd (copyLocked c s out inn eo inp))"
  using assms
  by (auto simp: CopyFileRange_def Let_def split: prod.splits)

lemma reachesRead_locked:
  assumes "reachesRead s inp out inn eo ei"
  shows "Flags inp = 0" "fhMap s (FhOut inp) = Some out" "fhMap s (FhIn inp) = Some inn"
    "entry (handles s out) = Some eo"
  using assms by (simp_all add: reachesRead_def validated_def)

lemma CopyFileRange_read:
  assumes "reachesRead s inp out inn eo ei"
  shows "resultOf (CopyFileRange c s inp) =
           (case readSource c (handles s inn) (OffIn inp) (Len inp) of
              (data, totalRead, err) \<Rightarrow>
                if err \<noteq> None then Return 0 EIO
                else if totalRead = 0 then Return 0 OK
                else fst (writeTarget c s out eo inp data totalRead))"
    and "stateOf (CopyFileRange c s inp) =
           (case readSource c (handles s inn) (OffIn inp) (Len inp) of
              (data, totalRead, err) \<Rightarrow>
                if err \<noteq> None \<or> totalRead = 0 then s
                else snd (writeTarget c s out eo inp data totalRead))"
  by (simp_all only: CopyFileRange_locked [OF reachesRead_locked [OF assms]]
      copyLocked_read [OF assms])

text \<open>The example requests that get as far as the read.\<close>

lemma reachesRead_examples:
  "reachesRead overlayWFS (mkIn 1 0 2 0 10 0) 2 1 2 1"
  "reachesRead hugeWFS (mkIn 1 0 2 0 10 0) 2 1 2 1"
  "reachesRead emptyWFS (mkIn 1 0 2 0 10 0) 2 1 2 1"
  "reachesRead pdfWFS (mkIn 1 0 2 0 5 0) 2 1 2 1"
  "reachesRead shortWFS (mkIn 1 0 2 0 10 0) 2 1 2 1"
  by (simp_all add: reachesRead_def validated_def overlayWFS_def hugeWFS_def emptyWFS_def
      pdfWFS_def shortWFS_def mkWFS_def mkHandle_def mkIn_def mkEntry_def)

text \<open>Only a request that gets as far as the read is answered with \<open>OK\<close>.\<close>

lemma success_reachesRead:
  assumes "resultOf (CopyFileRange c s inp) = Return w OK"
  shows "\<exists>out inn eo ei. reachesRead s inp out inn eo ei"
  using assms
  by (auto simp: CopyFileRange_def copyLocked_def reachesRead_def validated_def Let_def
      split: option.splits prod.splits if_splits)

section \<open>Validation\<close>

text \<open>
  Claim C7. A request with a non-zero \<open>Flags\<close> value is answered with \<open>EINVAL\<close> and zero
  bytes; the state is the one the function was called in, and the trace is empty: no
  handle was looked up and no lock was taken.
\<close>

theorem flags_rejected:
  "Flags inp \<noteq> 0 \<Longrightarrow> CopyFileRange c s inp = (Return 0 EINVAL, s, [])"
  by (simp add: CopyFileRange_def)

theorem flags_rejected_witness:
  "Flags (mkIn 1 0 2 0 10 1) \<noteq> 0
   \<and> CopyFileRange overlayCollab overlayWFS (mkIn 1 0 2 0 10 1)
       = (Return 0 EINVAL, overlayWFS, [])"
  using flags_rejected [of "mkIn 1 0 2 0 10 1" overlayCollab overlayWFS]
  by (simp add: mkIn_def)

text \<open>
  Claim C10. With zero flags and both handles resolved, a destination handle without an
  entry is answered with \<open>ENOENT\<close>. A source handle without an entry is not: when the
  destination has an entry and the source has none, the directory test of line 64
  dereferences the nil pointer and the function panics. Nothing is written in either
  case.
\<close>

theorem source_entry_unguarded:
  assumes "Flags inp = 0" "fhMap s (FhOut inp) = Some out" "fhMap s (FhIn inp) = Some inn"
  shows "(entry (handles s out) = None \<longrightarrow>
            resultOf (CopyFileRange c s inp) = Return 0 ENOENT
            \<and> stateOf (CopyFileRange c s inp) = s)
       \<and> (entry (handles s out) \<noteq> None \<and> entry (handles s inn) = None \<longrightarrow>
            resultOf (CopyFileRange c s inp) = Panic NilDereference
            \<and> stateOf (CopyFileRange c s inp) = s)"
  using assms
  by (auto simp: CopyFileRange_def copyLocked_def Let_def split: prod.splits if_splits)

theorem source_entry_unguarded_witness:
  "entry (handles noTargetEntryWFS 2) = None
   \<and> resultOf (CopyFileRange overlayCollab noTargetEntryWFS (mkIn 1 0 2 0 10 0))
       = Return 0 ENOENT
   \<and> entry (handles noSourceEntryWFS 2) \<noteq> None \<and> entry (handles noSourceEntryWFS 1) = None
   \<and> resultOf (CopyFileRange overlayCollab noSourceEntryWFS (mkIn 1 0 2 0 10 0))
       = Panic NilDereference"
  using source_entry_unguarded [of "mkIn 1 0 2 0 10 0" noTargetEntryWFS 2 1 overlayCollab]
    source_entry_unguarded [of "mkIn 1 0 2 0 10 0" noSourceEntryWFS 2 1 overlayCollab]
  by (simp add: mkIn_def noTargetEntryWFS_def noSourceEntryWFS_def mkWFS_def mkHandle_def)

section \<open>The source read\<close>

text \<open>
  Claim C3. When the request gets as far as the chunk read and the chunk read ends with
  an error other than \<open>io.EOF\<close>, the function returns \<open>EIO\<close> with zero bytes, and the
  state afterwards is the state before: no handle and no entry has changed, so the
  destination's size, content, dirty flag, dirty pages, writer pattern and content type
  are what they were.
\<close>

theorem chunk_read_failure_atomic:
  assumes "reachesRead s inp out inn eo ei"
    and "readFromChunks c (handles s inn) (replicate (nat (sint (Len inp))) 0) (OffIn inp)
           = (d, n, Some e)"
    and "e \<noteq> EOF"
  shows "resultOf (CopyFileRange c s inp) = Return 0 EIO
       \<and> stateOf (CopyFileRange c s inp) = s"
  using assms(2,3)
  by (simp add: CopyFileRange_read [OF assms(1)] readSource_def Let_def)

theorem chunk_read_failure_atomic_witness:
  "reachesRead overlayWFS (mkIn 1 0 2 0 10 0) 2 1 2 1
   \<and> readFromChunks (specCollab brokenStore sniffPDF) (handles overlayWFS 1)
        (replicate (nat (sint (Len (mkIn 1 0 2 0 10 0)))) 0) (OffIn (mkIn 1 0 2 0 10 0))
       = (replicate 10 0, 0, Some ReadFailure)
   \<and> resultOf (CopyFileRange (specCollab brokenStore sniffPDF) overlayWFS (mkIn 1 0 2 0 10 0))
       = Return 0 EIO
   \<and> stateOf (CopyFileRange (specCollab brokenStore sniffPDF) overlayWFS (mkIn 1 0 2 0 10 0))
       = overlayWFS"
proof -
  have f: "readFromChunks (specCollab brokenStore sniffPDF) (handles overlayWFS 1)
             (replicate (nat (sint (Len (mkIn 1 0 2 0 10 0)))) 0) (OffIn (mkIn 1 0 2 0 10 0))
           = (replicate 10 0, 0, Some ReadFailure)"
    by (simp add: specCollab_def ChunkStore_ReadAt_def brokenStore_def overlayWFS_def mkWFS_def
        mkHandle_def mkIn_def)
  show ?thesis
    using chunk_read_failure_atomic [OF reachesRead_examples(1) f] f reachesRead_examples(1)
    by simp
qed

text \<open>
  Claim C6. When the request gets as far as the read and the merged read yields zero
  bytes without an error, the function returns \<open>OK\<close> with zero bytes written, and the
  state afterwards is the state before, the destination's size, content, dirty pages,
  dirty flag, writer pattern and content type included.
\<close>

theorem zero_read_no_effect:
  assumes "reachesRead s inp out inn eo ei"
    and "readSource c (handles s inn) (OffIn inp) (Len inp) = (data, 0, None)"
  shows "resultOf (CopyFileRange c s inp) = Return 0 OK
       \<and> stateOf (CopyFileRange c s inp) = s"
  using assms(2)
  by (simp add: CopyFileRange_read [OF assms(1)])

theorem zero_read_no_effect_witness:
  "reachesRead emptyWFS (mkIn 1 0 2 0 10 0) 2 1 2 1
   \<and> readSource (specCollab emptyStore sniffPDF) (handles emptyWFS 1)
        (OffIn (mkIn 1 0 2 0 10 0)) (Len (mkIn 1 0 2 0 10 0)) = (replicate 10 0, 0, None)
   \<and> resultOf (CopyFileRange (specCollab emptyStore sniffPDF) emptyWFS (mkIn 1 0 2 0 10 0))
       = Return 0 OK
   \<and> stateOf (CopyFileRange (specCollab emptyStore sniffPDF) emptyWFS (mkIn 1 0 2 0 10 0))
       = emptyWFS"
proof -
  have rs: "readSource (specCollab emptyStore sniffPDF) (handles emptyWFS 1)
              (OffIn (mkIn 1 0 2 0 10 0)) (Len (mkIn 1 0 2 0 10 0)) = (replicate 10 0, 0, None)"
    by code_simp
  show ?thesis
    using zero_read_no_effect [OF reachesRead_examples(3) rs] reachesRead_examples(3) rs
    by simp
qed

section \<open>The overlap test\<close>

text \<open>
  Where the length is at least one and neither range runs past \<open>2 ^ 64\<close>, the test of
  lines 69 to 72 is the intersection of the two closed intervals.
\<close>

lemma unat_end:
  fixes a n :: uint64
  assumes "0 < unat n" "unat a + unat n \<le> 2 ^ 64"
  shows "unat (a + n - 1) = unat a + unat n - 1"
proof -
  have n0: "n \<noteq> 0" using assms(1) by auto
  have m: "unat (n - 1) = unat n - 1" by (rule unat_minus_one [OF n0])
  have "unat a + unat (n - 1) < 2 ^ LENGTH(64)"
    using assms m by simp
  then have "unat (a + (n - 1)) = unat a + unat (n - 1)"
    by (simp only: unat_add_lem [THEN iffD1])
  moreover have "a + n - 1 = a + (n - 1)" by simp
  ultimately have "unat (a + n - 1) = unat a + unat (n - 1)" by (simp only:)
  then show ?thesis using m assms(1) by linarith
qed

lemma rangesOverlap_exact:
  assumes "0 < unat n" "unat a + unat n \<le> 2 ^ 64" "unat b + unat n \<le> 2 ^ 64"
  shows "rangesOverlap a b n = closedIntervalsIntersect (uint a) (uint b) (uint n)"
proof -
  have ea: "unat (a + n - 1) = unat a + unat n - 1"
    by (rule unat_end [OF assms(1,2)])
  have eb: "unat (b + n - 1) = unat b + unat n - 1"
    by (rule unat_end [OF assms(1,3)])
  have "rangesOverlap a b n
          = (unat a \<le> unat b + unat n - 1 \<and> unat b \<le> unat a + unat n - 1)"
    by (simp add: rangesOverlap_def Let_def word_le_nat_alt ea eb)
  also have "\<dots> = closedIntervalsIntersect (int (unat a)) (int (unat b)) (int (unat n))"
    using assms(1) unfolding closedIntervalsIntersect_def by linarith
  finally show ?thesis by simp
qed

lemma validated_overlap:
  assumes "validated s inp out inn eo ei"
  shows "resultOf (CopyFileRange c s inp) = Return 0 EINVAL
           \<longleftrightarrow> inode (handles s inn) = inode (handles s out)
               \<and> rangesOverlap (OffIn inp) (OffOut inp) (Len inp)"
    and "resultOf (CopyFileRange c s inp) = Return 0 EINVAL
           \<Longrightarrow> stateOf (CopyFileRange c s inp) = s"
  using assms
  by (auto simp: validated_def CopyFileRange_def copyLocked_def writeTarget_def Let_def
      split: prod.splits if_splits)

text \<open>
  Claim C2, at an input where the function and the claim part. Handle 1 is source and
  destination, the source offset is 0, the destination offset 100 and the length 0. The
  two closed intervals \<open>[0, -1]\<close> and \<open>[100, 99]\<close> are empty and do not intersect, and
  the request passes the validation; but \<open>in.OffIn + in.Len - 1\<close> wraps around to
  \<open>2 ^ 64 - 1\<close>, the test of line 72 holds, and the function returns \<open>EINVAL\<close>.
\<close>

theorem empty_range_rejected:
  "validated overlayWFS (mkIn 1 0 1 100 0 0) 1 1 1 1
   \<and> \<not> closedIntervalsIntersect 0 100 0
   \<and> OffIn (mkIn 1 0 1 100 0 0) + Len (mkIn 1 0 1 100 0 0) - 1 = 18446744073709551615
   \<and> resultOf (CopyFileRange c overlayWFS (mkIn 1 0 1 100 0 0)) = Return 0 EINVAL"
  by (simp add: CopyFileRange_def copyLocked_def rangesOverlap_def closedIntervalsIntersect_def
      validated_def overlayWFS_def mkWFS_def mkHandle_def mkIn_def mkEntry_def)

section \<open>The destination write\<close>

text \<open>What a successful \<open>writeTarget\<close> leaves behind.\<close>

lemma writeTarget_Return:
  assumes "fst (writeTarget c s out eo inp data n) = Return w OK"
  shows "w = ucast n"
    and "dirtyMetadata (handles (snd (writeTarget c s out eo inp data n)) out)"
    and "FileSize (Attributes (entries (snd (writeTarget c s out eo inp data n)) eo))
           = max64 (OffOut inp + n) (FileSize (Attributes (entries s eo)))"
    and "Content (entries (snd (writeTarget c s out eo inp data n)) eo) = None"
    and "dirtyPages (handles (snd (writeTarget c s out eo inp data n)) out)
           = AddPage c (OffOut inp) data
               (IsSequentialMode c
                  (MonitorWriteAt c (OffOut inp) (Len inp) (dirtyPages (handles s out))))
               (MonitorWriteAt c (OffOut inp) (Len inp) (dirtyPages (handles s out)))"
    and "contentType (handles (snd (writeTarget c s out eo inp data n)) out)
           = (if 0 < w \<and> OffOut inp \<le> 512
              then DetectContentType c (take (nat (sint (min64 n 512 - 1))) data)
              else contentType (handles s out))"
  using assms
  by (auto simp: writeTarget_def Let_def split: if_splits)

lemma CopyFileRange_written:
  assumes r: "reachesRead s inp out inn eo ei"
    and rs: "readSource c (handles s inn) (OffIn inp) (Len inp) = (data, n, err)"
    and ok: "resultOf (CopyFileRange c s inp) = Return w OK"
    and w: "0 < w"
  shows "err = None" and "n \<noteq> 0"
    and "fst (writeTarget c s out eo inp data n) = Return w OK"
    and "stateOf (CopyFileRange c s inp) = snd (writeTarget c s out eo inp data n)"
  using ok w rs
  by (auto simp: CopyFileRange_read [OF r] split: if_splits)

text \<open>Reading words below \<open>2 ^ 63\<close> as signed and as unsigned numbers.\<close>

lemma sint_unat64:
  fixes w :: "64 word"
  assumes "unat w < 2 ^ 63"
  shows "sint w = int (unat w)"
proof -
  have "int (unat w) < int (2 ^ 63)" using assms by (simp only: of_nat_less_iff)
  then have "uint w < 2 ^ 63" by simp
  moreover have "- (2 ^ 63) \<le> uint w"
    by (rule order_trans [OF _ uint_ge_0]) simp
  ultimately have "signed_take_bit 63 (uint w) = uint w"
    by (intro signed_take_bit_int_eq_self)
  then show ?thesis by (simp add: sint_uint)
qed

lemma max64_unat:
  assumes "unat a < 2 ^ 63" "unat b < 2 ^ 63"
  shows "unat (max64 a b) = max (unat a) (unat b)"
proof -
  have "sint a < sint b \<longleftrightarrow> unat a < unat b"
    by (simp only: sint_unat64 [OF assms(1)] sint_unat64 [OF assms(2)] of_nat_less_iff)
  then show ?thesis by (simp only: max64_def max_def split: if_splits) auto
qed

text \<open>The scenario of the specification, evaluated.\<close>

lemma overlay_read:
  "readSource overlayCollab (handles overlayWFS 1)
     (OffIn (mkIn 1 0 2 0 10 0)) (Len (mkIn 1 0 2 0 10 0)) = (bytes ''012XY56789'', 10, None)"
  by code_simp

lemma overlay_result:
  "resultOf (CopyFileRange overlayCollab overlayWFS (mkIn 1 0 2 0 10 0)) = Return 10 OK"
  by code_simp

text \<open>
  Claim C4, as the function has it. The function computes the new size as the \<open>int64\<close>
  maximum of \<open>int64(in.OffOut) + totalRead\<close> and \<open>int64(FileSize)\<close>, and returns
  \<open>uint32(totalRead)\<close>. After a successful copy that returned \<open>w > 0\<close> bytes the dirty
  flag of the destination is set; and where the number \<open>n\<close> of bytes read is below
  \<open>2 ^ 32\<close>, and the old size and \<open>OffOut + n\<close> are below \<open>2 ^ 63\<close>, the new size is the
  maximum of the old size and \<open>OffOut + w\<close>, so it is no smaller than the old one.
\<close>

theorem size_update_in_range:
  assumes r: "reachesRead s inp out inn eo ei"
    and rs: "readSource c (handles s inn) (OffIn inp) (Len inp) = (data, n, err)"
    and ok: "resultOf (CopyFileRange c s inp) = Return w OK"
    and w: "0 < w"
  shows "dirtyMetadata (handles (stateOf (CopyFileRange c s inp)) out)
       \<and> (unat n < 2 ^ 32 \<and> unat (OffOut inp) + unat n < 2 ^ 63
            \<and> unat (FileSize (Attributes (entries s eo))) < 2 ^ 63 \<longrightarrow>
          unat (FileSize (Attributes (entries (stateOf (CopyFileRange c s inp)) eo)))
            = max (unat (FileSize (Attributes (entries s eo)))) (unat (OffOut inp) + unat w))"
proof -
  note wr = CopyFileRange_written [OF r rs ok w]
  note wt = writeTarget_Return [OF wr(3)]
  have d: "dirtyMetadata (handles (stateOf (CopyFileRange c s inp)) out)"
    by (simp only: wr(4) wt(2))
  have sz: "unat (FileSize (Attributes (entries (stateOf (CopyFileRange c s inp)) eo)))
            = max (unat (FileSize (Attributes (entries s eo)))) (unat (OffOut inp) + unat w)"
    if b: "unat n < 2 ^ 32" "unat (OffOut inp) + unat n < 2 ^ 63"
      "unat (FileSize (Attributes (entries s eo))) < 2 ^ 63"
  proof -
    have "take_bit 32 (unat n) = unat n"
      using b(1) by (rule take_bit_nat_eq_self)
    then have uw: "unat w = unat n"
      by (simp add: wt(1) unsigned_ucast_eq)
    have "(2::nat) ^ 63 \<le> 2 ^ LENGTH(64)" by simp
    with b(2) have "unat (OffOut inp) + unat n < 2 ^ LENGTH(64)"
      by (rule less_le_trans)
    then have sum: "unat (OffOut inp + n) = unat (OffOut inp) + unat n"
      by (simp only: unat_add_lem [THEN iffD1])
    have "unat (OffOut inp + n) < 2 ^ 63"
      using b(2) by (simp only: sum)
    then have "unat (max64 (OffOut inp + n) (FileSize (Attributes (entries s eo))))
            = max (unat (OffOut inp + n)) (unat (FileSize (Attributes (entries s eo))))"
      using b(3) by (rule max64_unat)
    then show ?thesis
      by (simp only: wr(4) wt(3) sum uw max.commute)
  qed
  from d sz show ?thesis by blast
qed

theorem size_update_in_range_witness:
  "reachesRead overlayWFS (mkIn 1 0 2 0 10 0) 2 1 2 1
   \<and> resultOf (CopyFileRange overlayCollab overlayWFS (mkIn 1 0 2 0 10 0)) = Return 10 OK
   \<and> unat (FileSize (Attributes (entries overlayWFS 2))) = 0
   \<and> dirtyMetadata (handles (stateOf (CopyFileRange overlayCollab overlayWFS
        (mkIn 1 0 2 0 10 0))) 2)
   \<and> unat (FileSize (Attributes (entries (stateOf (CopyFileRange overlayCollab overlayWFS
        (mkIn 1 0 2 0 10 0))) 2))) = 10"
proof -
  have w: "(0::uint32) < 10" by simp
  have e: "FileSize (Attributes (entries overlayWFS 2)) = 0"
    "OffOut (mkIn 1 0 2 0 10 0) = 0"
    by (simp_all add: overlayWFS_def mkWFS_def mkEntry_def mkIn_def)
  show ?thesis
    using size_update_in_range [OF reachesRead_examples(1) overlay_read overlay_result w]
      reachesRead_examples(1) overlay_result
    by (simp add: e)
qed

text \<open>
  Claim C4 as stated fails where the old size is \<open>2 ^ 63\<close> or more: read as an \<open>int64\<close>
  it is negative, and the maximum is the other operand. Copying the ten bytes of the
  scenario to offset 0 of a destination of size \<open>2 ^ 63\<close> succeeds with ten bytes written
  and leaves the size 10, which is not the maximum of \<open>2 ^ 63\<close> and \<open>0 + 10\<close>.
\<close>

theorem size_shrinks_counterexample:
  "resultOf (CopyFileRange overlayCollab hugeWFS (mkIn 1 0 2 0 10 0)) = Return 10 OK
   \<and> unat (FileSize (Attributes (entries (stateOf (CopyFileRange overlayCollab hugeWFS
        (mkIn 1 0 2 0 10 0))) 2)))
       \<noteq> max (unat (FileSize (Attributes (entries hugeWFS 2))))
             (unat (OffOut (mkIn 1 0 2 0 10 0)) + unat (10 :: uint32))
   \<and> unat (FileSize (Attributes (entries (stateOf (CopyFileRange overlayCollab hugeWFS
        (mkIn 1 0 2 0 10 0))) 2)))
       < unat (FileSize (Attributes (entries hugeWFS 2)))"
proof -
  have a: "resultOf (CopyFileRange overlayCollab hugeWFS (mkIn 1 0 2 0 10 0)) = Return 10 OK"
    by code_simp
  have b: "FileSize (Attributes (entries (stateOf (CopyFileRange overlayCollab hugeWFS
             (mkIn 1 0 2 0 10 0))) 2)) = 10"
    by code_simp
  have c: "FileSize (Attributes (entries hugeWFS 2)) = 9223372036854775808"
    "OffOut (mkIn 1 0 2 0 10 0) = 0"
    by (simp_all add: hugeWFS_def mkWFS_def mkEntry_def mkIn_def)
  show ?thesis by (simp add: a b c)
qed

text \<open>
  Claim C8, at an input where the function and the claim part. The source holds the five
  bytes \<open>%PDF-\<close>; all five are copied to offset 0 of the destination, and five bytes are
  reported as written. The slice handed to the sniffer is \<open>data[:min(totalRead, 512)-1]\<close>,
  the first four bytes \<open>%PDF\<close>: the last byte read is left out, whatever sniffer is used.
\<close>

theorem sniff_drops_last_byte:
  "resultOf (CopyFileRange (specCollab pdfStore sniff) pdfWFS (mkIn 1 0 2 0 5 0)) = Return 5 OK
   \<and> pages (dirtyPages (handles (stateOf (CopyFileRange (specCollab pdfStore sniff) pdfWFS
        (mkIn 1 0 2 0 5 0))) 2)) = [(0, bytes ''%PDF-'')]
   \<and> contentType (handles (stateOf (CopyFileRange (specCollab pdfStore sniff) pdfWFS
        (mkIn 1 0 2 0 5 0))) 2) = sniff (bytes ''%PDF'')"
  by code_simp

text \<open>
  Claim C5, at an input where the function and the claim part. The source holds the three
  bytes \<open>abc\<close>, the destination the ten committed bytes \<open>ZZZZZZZZZZ\<close>, and ten bytes
  are requested. Three bytes are read and reported as written, but the page added to the
  destination is the whole buffer of ten bytes, \<open>abc\<close> and seven zero bytes: a read of
  the destination range afterwards returns these ten bytes, where it returned
  \<open>ZZZZZZZZZZ\<close> before.
\<close>

theorem short_read_inserts_whole_buffer:
  "resultOf (CopyFileRange (specCollab shortStore sniff) shortWFS (mkIn 1 0 2 0 10 0))
     = Return 3 OK
   \<and> pages (dirtyPages (handles (stateOf (CopyFileRange (specCollab shortStore sniff) shortWFS
        (mkIn 1 0 2 0 10 0))) 2)) = [(0, bytes ''abc'' @ replicate 7 0)]
   \<and> fst (readSource (specCollab shortStore sniff) (handles shortWFS 2) 0 10)
       = bytes ''ZZZZZZZZZZ''
   \<and> fst (readSource (specCollab shortStore sniff)
        (handles (stateOf (CopyFileRange (specCollab shortStore sniff) shortWFS
           (mkIn 1 0 2 0 10 0))) 2) 0 10)
       = bytes ''abc'' @ replicate 7 0"
  by code_simp

section \<open>The order of the locks\<close>





text \<open>
  In a registry that files every handle under its own \<open>fh\<close> value, the \<open>fh\<close> fields of
  two resolved handles differ exactly when the handles are different objects.
\<close>

lemma mutexOrder_identity:
  assumes "\<And>i r. fhMap s i = Some r \<Longrightarrow> fh (handles s r) = i"
    and "Flags inp = 0" "fhMap s (FhOut inp) = Some out" "fhMap s (FhIn inp) = Some inn"
  shows "mutexOrder s inp
           = [Lock out, EntryLock out]
             @ (if entry (handles s out) \<noteq> None \<and> inn \<noteq> out
                then [Lock inn, EntryLock inn] else [])"
proof -
  have "fh (handles s inn) = FhIn inp" "fh (handles s out) = FhOut inp"
    using assms(1,3,4) by simp_all
  moreover have "FhIn inp = FhOut inp \<longleftrightarrow> inn = out"
    using assms(1,3,4) by (metis option.inject)
  ultimately show ?thesis
    using assms(2-4) by (simp add: mutexOrder_def)
qed

section \<open>The merged view of the source\<close>





















text \<open>
  Over the modelled chunk store, a copy succeeds only from a source whose chunks can be
  read at a non-negative offset.
\<close>

lemma success_readable:
  assumes r: "reachesRead s inp out inn eo ei"
    and ok: "resultOf (CopyFileRange (specCollab store sniff) s inp) = Return w OK"
  shows "\<exists>bs. store (inode (handles s inn)) = Committed bs" and "0 \<le> sint (OffIn inp)"
  using ok
  by (auto simp: CopyFileRange_read [OF r] readSource_def specCollab_def ChunkStore_ReadAt_def
      Let_def split: chunk_object.splits prod.splits if_splits)




end
